theory Spec2Isabelle
  imports Complex_Main "HOL-Library.AList" "HOL-Library.Sublist" "HOL-Library.Multiset"
begin

section \<open>Spark event-log analysis: per-execution breakdown (spark\_eventlog\_analyze.py)\<close>

text \<open>
  The development embeds \<^verbatim>\<open>analyze_sql_breakdown\<close> and \<^verbatim>\<open>main\<close> of
  \<^verbatim>\<open>src/spark_eventlog_analyze.py\<close> together with the helpers they call.

  Conventions of the embedding.
  \<^item> A decoded JSON value is a \<open>json\<close>; Python's \<^verbatim>\<open>None\<close> is \<open>JNull\<close>. A dict is the
    list of its items in insertion order (its keys are distinct, as in any dict).
  \<^item> Python's integers are unbounded: \<open>int\<close>.
  \<^item> Python's floats are idealised as exact rationals (\<open>rat\<close>): rounding to binary64,
    the non-finite values and the OverflowError of an integer too large for a float are
    not modelled. \<open>JFloat q\<close> is a finite JSON number with a fraction or an exponent.
  \<^item> A string is a list of characters with code points below 256.
  \<^item> Two conversions of the Python library are parameters (record \<open>pylib\<close>):
    \<^verbatim>\<open>float(s)\<close> of a string and \<^verbatim>\<open>str(v)\<close> of a decoded value.
  \<^item> An uncaught Python exception is a value \<open>Inl e\<close> of \<open>error + 'a\<close>.
  \<^item> Opening a path (plain, gzip, zip) is outside the model: a source is the list of its
    lines as the file iterator yields them.
\<close>

subsection \<open>Decoded JSON values and Python built-ins\<close>

datatype json =
    JNull
  | JBool bool
  | JInt int
  | JFloat rat
  | JStr string
  | JArr "json list"
  | JObj "(string \<times> json) list"

datatype error = TypeError | AttributeError

record pylib =
  float_of_str :: "string \<Rightarrow> rat option"
  str_of :: "json \<Rightarrow> string"

text \<open>Truth value of a decoded value, as \<^verbatim>\<open>if x\<close>, \<^verbatim>\<open>not x\<close> and \<^verbatim>\<open>x or y\<close> test it.\<close>

fun truthy :: "json \<Rightarrow> bool" where
  "truthy JNull = False"
| "truthy (JBool b) = b"
| "truthy (JInt n) = (n \<noteq> 0)"
| "truthy (JFloat q) = (q \<noteq> 0)"
| "truthy (JStr s) = (s \<noteq> [])"
| "truthy (JArr xs) = (xs \<noteq> [])"
| "truthy (JObj kvs) = (kvs \<noteq> [])"

text \<open>\<^verbatim>\<open>x or y\<close>.\<close>

definition py_or :: "json \<Rightarrow> json \<Rightarrow> json" where
  "py_or x y = (if truthy x then x else y)"

text \<open>
  \<^verbatim>\<open>str.strip()\<close>: the white space of Python among the code points below 256 is
  9..13, 28..32, 133 and 160.
\<close>

definition is_space :: "char \<Rightarrow> bool" where
  "is_space c =
     (let n = (of_char c :: nat)
      in (9 \<le> n \<and> n \<le> 13) \<or> (28 \<le> n \<and> n \<le> 32) \<or> n = 133 \<or> n = 160)"

definition strip :: "string \<Rightarrow> string" where
  "strip s = rev (dropWhile is_space (rev (dropWhile is_space s)))"

text \<open>\<^verbatim>\<open>str.lower()\<close> on code points below 256: A..Z and the capital letters of Latin-1.\<close>

definition lower_char :: "char \<Rightarrow> char" where
  "lower_char c =
     (let n = (of_char c :: nat)
      in if (65 \<le> n \<and> n \<le> 90) \<or> (192 \<le> n \<and> n \<le> 222 \<and> n \<noteq> 215)
         then char_of (n + 32) else c)"

definition lower :: "string \<Rightarrow> string" where
  "lower s = map lower_char s"

text \<open>\<^verbatim>\<open>sub in s\<close> for strings.\<close>

primrec contains :: "string \<Rightarrow> string \<Rightarrow> bool" where
  "contains sub [] = (sub = [])"
| "contains sub (c # cs) = (prefix sub (c # cs) \<or> contains sub cs)"

text \<open>
  \<^verbatim>\<open>int(s)\<close> of a string, base 10: white space is dropped at both ends (for
  \<^verbatim>\<open>int\<close> this is 9..13, 32, 133 and 160 among the code points below 256: unlike
  \<^verbatim>\<open>strip\<close>, it keeps 28..31), then an optional sign, then decimal digits, where single
  underscores may stand between two digits. Anything else raises ValueError (\<open>None\<close>).
  CPython's limit on the number of digits is not modelled.
\<close>

definition int_space :: "char \<Rightarrow> bool" where
  "int_space c =
     (let n = (of_char c :: nat) in (9 \<le> n \<and> n \<le> 13) \<or> n = 32 \<or> n = 133 \<or> n = 160)"

definition digit_of :: "char \<Rightarrow> nat option" where
  "digit_of c =
     (let n = (of_char c :: nat) in if 48 \<le> n \<and> n \<le> 57 then Some (n - 48) else None)"

fun parse_digits :: "nat \<Rightarrow> string \<Rightarrow> nat option" where
  "parse_digits acc [] = Some acc"
| "parse_digits acc [c] =
     (case digit_of c of None \<Rightarrow> None | Some v \<Rightarrow> Some (10 * acc + v))"
| "parse_digits acc (c # d # ds) =
     (if c = CHR ''_''
      then (case digit_of d of None \<Rightarrow> None | Some v \<Rightarrow> parse_digits (10 * acc + v) ds)
      else (case digit_of c of None \<Rightarrow> None | Some v \<Rightarrow> parse_digits (10 * acc + v) (d # ds)))"

definition parse_number :: "string \<Rightarrow> nat option" where
  "parse_number s =
     (case s of
        [] \<Rightarrow> None
      | d # ds \<Rightarrow> (case digit_of d of None \<Rightarrow> None | Some v \<Rightarrow> parse_digits v ds))"

definition int_of_str :: "string \<Rightarrow> int option" where
  "int_of_str s =
     (case rev (dropWhile int_space (rev (dropWhile int_space s))) of
        [] \<Rightarrow> None
      | c # cs \<Rightarrow>
          if c = CHR ''-'' then map_option (\<lambda>n. - int n) (parse_number cs)
          else if c = CHR ''+'' then map_option int (parse_number cs)
          else map_option int (parse_number (c # cs)))"

text \<open>
  \<^verbatim>\<open>int(x)\<close> of a decoded value; \<open>None\<close> when Python raises (TypeError for
  \<^verbatim>\<open>None\<close>, lists and dicts; ValueError for a malformed string). A float is truncated
  towards zero.
\<close>

fun py_int :: "json \<Rightarrow> int option" where
  "py_int JNull = None"
| "py_int (JBool b) = Some (if b then 1 else 0)"
| "py_int (JInt n) = Some n"
| "py_int (JFloat q) = Some (if 0 \<le> q then \<lfloor>q\<rfloor> else \<lceil>q\<rceil>)"
| "py_int (JStr s) = int_of_str s"
| "py_int (JArr xs) = None"
| "py_int (JObj kvs) = None"

text \<open>\<^verbatim>\<open>float(x)\<close> of a decoded value; \<open>None\<close> when Python raises.\<close>

fun py_float :: "pylib \<Rightarrow> json \<Rightarrow> rat option" where
  "py_float py JNull = None"
| "py_float py (JBool b) = Some (if b then 1 else 0)"
| "py_float py (JInt n) = Some (of_int n)"
| "py_float py (JFloat q) = Some q"
| "py_float py (JStr s) = float_of_str py s"
| "py_float py (JArr xs) = None"
| "py_float py (JObj kvs) = None"

text \<open>
  Iterating a decoded value (\<^verbatim>\<open>for s in v\<close>): a list yields its elements, a string its
  characters, a dict its keys; anything else raises TypeError.
\<close>

fun py_iter :: "json \<Rightarrow> error + json list" where
  "py_iter (JArr xs) = Inr xs"
| "py_iter (JStr s) = Inr (map (\<lambda>c. JStr [c]) s)"
| "py_iter (JObj kvs) = Inr (map (\<lambda>kv. JStr (fst kv)) kvs)"
| "py_iter JNull = Inl TypeError"
| "py_iter (JBool b) = Inl TypeError"
| "py_iter (JInt n) = Inl TypeError"
| "py_iter (JFloat q) = Inl TypeError"

subsection \<open>Helpers of the source\<close>

text \<open>\<^verbatim>\<open>_g(d, *keys, default)\<close>: the value of the first key of \<open>keys\<close> present in \<open>d\<close>.\<close>

fun g :: "json \<Rightarrow> string list \<Rightarrow> json \<Rightarrow> json" where
  "g d [] dflt = dflt"
| "g d (k # ks) dflt =
     (case d of
        JObj kvs \<Rightarrow> (case map_of kvs k of Some v \<Rightarrow> v | None \<Rightarrow> g d ks dflt)
      | _ \<Rightarrow> g d ks dflt)"

text \<open>\<^verbatim>\<open>_as_int(x, default)\<close>; \<open>as_int0\<close> is the call with \<^verbatim>\<open>default=0\<close>.\<close>

definition as_int :: "json \<Rightarrow> int option \<Rightarrow> int option" where
  "as_int x dflt = (case py_int x of Some n \<Rightarrow> Some n | None \<Rightarrow> dflt)"

definition as_int0 :: "json \<Rightarrow> int" where
  "as_int0 x = (case py_int x of Some n \<Rightarrow> n | None \<Rightarrow> 0)"

text \<open>\<^verbatim>\<open>_ms_from_ns(ns_val)\<close>.\<close>

definition ms_from_ns :: "pylib \<Rightarrow> json \<Rightarrow> rat" where
  "ms_from_ns py ns_val = (case py_float py ns_val of Some x \<Rightarrow> x / 1000000 | None \<Rightarrow> 0)"

text \<open>
  \<^verbatim>\<open>_norm_properties(props)\<close>. The result is read at one string key only, so the
  model keeps the entries with a string key. In the list form a key that is a list or a
  dict is unhashable and \<^verbatim>\<open>out[k] = v\<close> raises TypeError; a key that is a number or a
  boolean is stored under a key no string equals.
\<close>

definition unwrap_value :: "json \<Rightarrow> json" where
  "unwrap_value v =
     (case v of
        JObj kvs \<Rightarrow>
          (case map_of kvs ''value'' of
             Some w \<Rightarrow> if length kvs = 1 then w else v
           | None \<Rightarrow> v)
      | _ \<Rightarrow> v)"

fun norm_dict :: "(string \<times> json) list \<Rightarrow> (string \<rightharpoonup> json) \<Rightarrow> (string \<rightharpoonup> json)" where
  "norm_dict [] out = out"
| "norm_dict ((k, v) # kvs) out = norm_dict kvs (out(k \<mapsto> unwrap_value v))"

fun norm_list :: "json list \<Rightarrow> (string \<rightharpoonup> json) \<Rightarrow> error + (string \<rightharpoonup> json)" where
  "norm_list [] out = Inr out"
| "norm_list (p # ps) out =
     (case p of
        JObj kvs \<Rightarrow>
          (let k = (case map_of kvs ''key'' of Some x \<Rightarrow> x | None \<Rightarrow> JNull);
               v = (case map_of kvs ''value'' of Some x \<Rightarrow> x | None \<Rightarrow> JNull)
           in case k of
                JNull \<Rightarrow> norm_list ps out
              | JStr s \<Rightarrow> norm_list ps (out(s \<mapsto> v))
              | JArr xs \<Rightarrow> Inl TypeError
              | JObj ys \<Rightarrow> Inl TypeError
              | _ \<Rightarrow> norm_list ps out)
      | _ \<Rightarrow> norm_list ps out)"

definition norm_properties :: "json \<Rightarrow> error + (string \<rightharpoonup> json)" where
  "norm_properties props =
     (if \<not> truthy props then Inr Map.empty
      else case props of
             JObj kvs \<Rightarrow> Inr (norm_dict kvs Map.empty)
           | JArr ps \<Rightarrow> norm_list ps Map.empty
           | _ \<Rightarrow> Inr Map.empty)"

text \<open>\<^verbatim>\<open>_success_from_task_end(ev)\<close>.\<close>

definition success_from_task_end :: "pylib \<Rightarrow> json \<Rightarrow> bool" where
  "success_from_task_end py ev =
     (let r = g ev [''Task End Reason'', ''taskEndReason''] JNull;
          rs = str_of py r;
          by_text = (contains ''Success'' rs \<or> contains ''org.apache.spark.Success'' rs)
      in case r of
           JNull \<Rightarrow> True
         | JStr s \<Rightarrow> lower s = ''success''
         | JObj kvs \<Rightarrow>
             (case g r [''Reason'', ''reason''] JNull of
                JStr s \<Rightarrow> lower s = ''success''
              | _ \<Rightarrow> by_text)
         | _ \<Rightarrow> by_text)"

subsection \<open>The correlation context\<close>

text \<open>
  The dict stored under an execution id in \<^verbatim>\<open>exec_info\<close>: each key may be absent
  (\<open>None\<close>). \<^verbatim>\<open>startTime\<close> and \<^verbatim>\<open>endTime\<close> hold the result of
  \<^verbatim>\<open>_as_int(..., default=None)\<close>, which may itself be \<^verbatim>\<open>None\<close>.
\<close>

record exec_meta =
  info_description :: "string option"
  info_details :: "json option"
  info_startTime :: "int option option"
  info_endTime :: "int option option"

definition empty_meta :: exec_meta where
  "empty_meta =
     \<lparr>info_description = None, info_details = None, info_startTime = None, info_endTime = None\<rparr>"

text \<open>The task record \<^verbatim>\<open>t_rec\<close> built for a task-end event.\<close>

record t_rec =
  t_stageId :: int
  t_taskId :: "int option"
  t_launch :: "int option"
  t_finish :: "int option"
  t_duration_ms :: int
  t_run_ms :: int
  t_cpu_ms :: rat
  t_deserialize_ms :: int
  t_result_serialize_ms :: int
  t_gc_ms :: int
  t_shuffle_fetch_wait_ms :: int
  t_shuffle_write_time_ms :: rat
  t_shuffle_read_bytes :: int
  t_shuffle_write_bytes :: int
  t_input_bytes :: int
  t_output_bytes :: int
  t_success :: bool

type_synonym task_key = "int \<times> int option"

text \<open>
  The five dicts of \<^verbatim>\<open>analyze_sql_breakdown\<close>. \<^verbatim>\<open>tasks_by_key\<close> is the list of its
  items in insertion order, since the aggregation walks it in that order
  (\<open>AList.update\<close> replaces the value of a present key in place and appends a new key,
  as assignment to a dict does). \<^verbatim>\<open>exec_jobs\<close> is a \<^verbatim>\<open>defaultdict(set)\<close>: an id never
  written holds the empty set.
\<close>

record ctx =
  exec_info :: "int \<rightharpoonup> exec_meta"
  exec_jobs :: "int \<Rightarrow> int set"
  job_exec :: "int \<rightharpoonup> int"
  stage_job :: "int \<rightharpoonup> int"
  tasks_by_key :: "(task_key \<times> t_rec) list"

definition ctx0 :: ctx where
  "ctx0 =
     \<lparr>exec_info = Map.empty, exec_jobs = (\<lambda>_. {}), job_exec = Map.empty,
      stage_job = Map.empty, tasks_by_key = []\<rparr>"

definition bind_e :: "error + 'a \<Rightarrow> ('a \<Rightarrow> error + 'b) \<Rightarrow> error + 'b" where
  "bind_e m f = (case m of Inl e \<Rightarrow> Inl e | Inr x \<Rightarrow> f x)"

subsection \<open>Streaming pass: one branch per recognised event\<close>

text \<open>
  SQL execution start (lines 143 to 153). \<^verbatim>\<open>.strip()\<close> is called on
  \<^verbatim>\<open>_g(...) or ""\<close>: a description that is true and not a string has no such method
  (AttributeError).
\<close>

definition on_execution_start :: "ctx \<Rightarrow> json \<Rightarrow> error + ctx" where
  "on_execution_start c ev =
     (case as_int (g ev [''executionId'', ''Execution ID''] JNull) None of
        None \<Rightarrow> Inr c
      | Some exid \<Rightarrow>
          (let info = (case exec_info c exid of None \<Rightarrow> empty_meta | Some i \<Rightarrow> i)
           in case py_or (g ev [''description'', ''Description''] (JStr [])) (JStr []) of
                JStr s \<Rightarrow>
                  (let info1 = info\<lparr>info_description := Some (strip s),
                                     info_details := Some (g ev [''details'', ''Details''] (JStr []))\<rparr>;
                       st = g ev [''time'', ''Time'', ''startTime'', ''Start Time''] JNull;
                       info2 = (if st \<noteq> JNull
                                then info1\<lparr>info_startTime := Some (as_int st None)\<rparr>
                                else info1)
                   in Inr (c\<lparr>exec_info := (exec_info c)(exid \<mapsto> info2)\<rparr>))
              | _ \<Rightarrow> Inl AttributeError))"

text \<open>SQL execution end (lines 155 to 162).\<close>

definition on_execution_end :: "ctx \<Rightarrow> json \<Rightarrow> ctx" where
  "on_execution_end c ev =
     (case as_int (g ev [''executionId'', ''Execution ID''] JNull) None of
        None \<Rightarrow> c
      | Some exid \<Rightarrow>
          (let ex = (case exec_info c exid of None \<Rightarrow> empty_meta | Some i \<Rightarrow> i);
               en = g ev [''time'', ''Time'', ''endTime'', ''End Time''] JNull;
               ex1 = (if en \<noteq> JNull then ex\<lparr>info_endTime := Some (as_int en None)\<rparr> else ex)
           in c\<lparr>exec_info := (exec_info c)(exid \<mapsto> ex1)\<rparr>))"

text \<open>Job start (lines 165 to 190).\<close>

definition stage_ids_of :: "json \<Rightarrow> error + int option list" where
  "stage_ids_of ev =
     (let stage_ids = g ev [''Stage IDs'', ''stageIds''] JNull
      in if stage_ids = JNull
         then bind_e (py_iter (py_or (g ev [''Stage Infos'', ''stageInfos''] (JArr [])) (JArr [])))
                (\<lambda>infos.
                   Inr (filter (\<lambda>sid. sid \<noteq> None)
                          (map (\<lambda>si. as_int (g si [''Stage ID'', ''stageId''] JNull) None) infos)))
         else bind_e (py_iter stage_ids)
                (\<lambda>ss. Inr (map (\<lambda>s. as_int s None) (filter (\<lambda>s. s \<noteq> JNull) ss))))"

fun set_stage_jobs :: "int option list \<Rightarrow> int \<Rightarrow> (int \<rightharpoonup> int) \<Rightarrow> (int \<rightharpoonup> int)" where
  "set_stage_jobs [] jobId sj = sj"
| "set_stage_jobs (None # sids) jobId sj = set_stage_jobs sids jobId sj"
| "set_stage_jobs (Some sid # sids) jobId sj = set_stage_jobs sids jobId (sj(sid \<mapsto> jobId))"

definition on_job_start :: "ctx \<Rightarrow> json \<Rightarrow> error + ctx" where
  "on_job_start c ev =
     (case as_int (g ev [''Job ID'', ''jobId''] JNull) None of
        None \<Rightarrow> Inr c
      | Some jobId \<Rightarrow>
          bind_e (stage_ids_of ev) (\<lambda>stage_ids.
          bind_e (norm_properties (g ev [''Properties'', ''properties''] (JObj []))) (\<lambda>props.
            (let exid_str = (case props ''spark.sql.execution.id'' of None \<Rightarrow> JNull | Some v \<Rightarrow> v);
                 c1 = (if exid_str \<noteq> JNull
                       then (case py_int exid_str of
                               Some exid \<Rightarrow>
                                 c\<lparr>job_exec := (job_exec c)(jobId \<mapsto> exid),
                                   exec_jobs := (exec_jobs c)(exid := insert jobId (exec_jobs c exid))\<rparr>
                             | None \<Rightarrow> c)
                       else c)
             in Inr (c1\<lparr>stage_job := set_stage_jobs stage_ids jobId (stage_job c1)\<rparr>)))))"

text \<open>Task end (lines 193 to 267): the record, then the store.\<close>

definition task_record :: "pylib \<Rightarrow> int \<Rightarrow> json \<Rightarrow> t_rec" where
  "task_record py stageId ev =
     (let taskInfo = py_or (g ev [''Task Info'', ''taskInfo'', ''TaskInfo''] (JObj [])) (JObj []);
          metrics = py_or (g ev [''Task Metrics'', ''taskMetrics'', ''TaskMetrics''] (JObj [])) (JObj []);
          task_id = as_int (g taskInfo [''Task ID'', ''taskId'', ''TaskId''] JNull) None;
          launch = g taskInfo [''Launch Time'', ''launchTime''] JNull;
          finish = g taskInfo [''Finish Time'', ''finishTime''] JNull;
          launch_i = (if launch \<noteq> JNull then as_int launch None else None);
          finish_i = (if finish \<noteq> JNull then as_int finish None else None);
          duration_ms =
            (case (launch_i, finish_i) of
               (Some l, Some f) \<Rightarrow> max 0 (f - l)
             | _ \<Rightarrow> as_int0 (g metrics [''Executor Run Time'', ''executorRunTime''] (JInt 0)));
          run_ms = as_int0 (g metrics [''Executor Run Time'', ''executorRunTime''] (JInt 0));
          cpu_ns = as_int0 (g metrics [''Executor CPU Time'', ''executorCpuTime''] (JInt 0));
          cpu_ms = of_int cpu_ns / 1000000;
          deser_ms = as_int0 (g metrics [''Executor Deserialize Time'', ''executorDeserializeTime''] (JInt 0));
          result_ser_ms = as_int0 (g metrics [''Result Serialization Time'', ''resultSerializationTime''] (JInt 0));
          gc_ms = as_int0 (g metrics [''JVM GC Time'', ''JvmGcTime'', ''jvmGcTime''] (JInt 0));
          shuffle_read = py_or (g metrics [''Shuffle Read Metrics'', ''shuffleReadMetrics''] (JObj [])) (JObj []);
          shuffle_write = py_or (g metrics [''Shuffle Write Metrics'', ''shuffleWriteMetrics''] (JObj [])) (JObj []);
          input_metrics = py_or (g metrics [''Input Metrics'', ''inputMetrics''] (JObj [])) (JObj []);
          output_metrics = py_or (g metrics [''Output Metrics'', ''outputMetrics''] (JObj [])) (JObj []);
          shuffle_fetch_wait_ms = as_int0 (g shuffle_read [''Fetch Wait Time'', ''fetchWaitTime''] (JInt 0));
          shuffle_read_bytes =
            as_int0 (g shuffle_read [''Remote Bytes Read'', ''remoteBytesRead''] (JInt 0))
            + as_int0 (g shuffle_read [''Local Bytes Read'', ''localBytesRead''] (JInt 0));
          shuffle_write_time_ms = ms_from_ns py (g shuffle_write [''Write Time'', ''writeTime''] (JInt 0));
          shuffle_write_bytes = as_int0 (g shuffle_write [''Bytes Written'', ''bytesWritten''] (JInt 0));
          input_bytes = as_int0 (g input_metrics [''Bytes Read'', ''bytesRead''] (JInt 0));
          output_bytes = as_int0 (g output_metrics [''Bytes Written'', ''bytesWritten''] (JInt 0));
          success = success_from_task_end py ev
      in \<lparr>t_stageId = stageId, t_taskId = task_id, t_launch = launch_i, t_finish = finish_i,
          t_duration_ms = duration_ms, t_run_ms = run_ms, t_cpu_ms = cpu_ms,
          t_deserialize_ms = deser_ms, t_result_serialize_ms = result_ser_ms, t_gc_ms = gc_ms,
          t_shuffle_fetch_wait_ms = shuffle_fetch_wait_ms,
          t_shuffle_write_time_ms = shuffle_write_time_ms,
          t_shuffle_read_bytes = shuffle_read_bytes, t_shuffle_write_bytes = shuffle_write_bytes,
          t_input_bytes = input_bytes, t_output_bytes = output_bytes, t_success = success\<rparr>)"

text \<open>
  Lines 265 to 267: \<^verbatim>\<open>prev = tasks_by_key.get(key)\<close>, then the record is stored when
  \<^verbatim>\<open>prev is None or (not prev.get("success") and success)\<close>.
\<close>

definition store_task :: "task_key \<Rightarrow> t_rec \<Rightarrow> (task_key \<times> t_rec) list \<Rightarrow> (task_key \<times> t_rec) list" where
  "store_task key rec tasks =
     (case map_of tasks key of
        None \<Rightarrow> AList.update key rec tasks
      | Some prev \<Rightarrow>
          if \<not> t_success prev \<and> t_success rec then AList.update key rec tasks else tasks)"

definition on_task_end :: "pylib \<Rightarrow> ctx \<Rightarrow> json \<Rightarrow> ctx" where
  "on_task_end py c ev =
     (case as_int (g ev [''Stage ID'', ''stageId''] JNull) None of
        None \<Rightarrow> c
      | Some stageId \<Rightarrow>
          (let rec = task_record py stageId ev
           in c\<lparr>tasks_by_key := store_task (stageId, t_taskId rec) rec (tasks_by_key c)\<rparr>))"

text \<open>The body of the loop over lines, from the event type on (lines 138 to 267).\<close>

definition process_event :: "pylib \<Rightarrow> ctx \<Rightarrow> json \<Rightarrow> error + ctx" where
  "process_event py c ev =
     (let et = g ev [''Event'', ''event''] JNull
      in if \<not> truthy et then Inr c
         else if et = JStr ''org.apache.spark.sql.execution.ui.SparkListenerSQLExecutionStart''
                 \<or> et = JStr ''SparkListenerSQLExecutionStart''
           then on_execution_start c ev
         else if et = JStr ''org.apache.spark.sql.execution.ui.SparkListenerSQLExecutionEnd''
                 \<or> et = JStr ''SparkListenerSQLExecutionEnd''
           then Inr (on_execution_end c ev)
         else if et = JStr ''SparkListenerJobStart'' then on_job_start c ev
         else if et = JStr ''SparkListenerTaskEnd'' then Inr (on_task_end py c ev)
         else Inr c)"

text \<open>
  A line of a source after \<^verbatim>\<open>json.loads\<close>: \<open>None\<close> for a line that is blank or that
  \<^verbatim>\<open>json.loads\<close> rejects; both are skipped (lines 131 to 136).
\<close>

type_synonym line = "json option"

definition process_line :: "pylib \<Rightarrow> ctx \<Rightarrow> line \<Rightarrow> error + ctx" where
  "process_line py c l = (case l of None \<Rightarrow> Inr c | Some ev \<Rightarrow> process_event py c ev)"

fun process_lines :: "pylib \<Rightarrow> ctx \<Rightarrow> line list \<Rightarrow> error + ctx" where
  "process_lines py c [] = Inr c"
| "process_lines py c (l # ls) = bind_e (process_line py c l) (\<lambda>c1. process_lines py c1 ls)"

fun process_paths :: "pylib \<Rightarrow> ctx \<Rightarrow> line list list \<Rightarrow> error + ctx" where
  "process_paths py c [] = Inr c"
| "process_paths py c (f # fs) = bind_e (process_lines py c f) (\<lambda>c1. process_paths py c1 fs)"

subsection \<open>Attribution and aggregation\<close>

text \<open>
  Lines 270 to 280. \<^verbatim>\<open>tasks_by_exec\<close> is a \<^verbatim>\<open>defaultdict(list)\<close>, again kept as the
  list of its items in insertion order: the output rows are built in that order.
\<close>

definition append_task :: "int \<Rightarrow> t_rec \<Rightarrow> (int \<times> t_rec list) list \<Rightarrow> (int \<times> t_rec list) list" where
  "append_task exid t groups =
     AList.update exid ((case map_of groups exid of None \<Rightarrow> [] | Some ts \<Rightarrow> ts) @ [t]) groups"

fun attribute :: "ctx \<Rightarrow> t_rec list \<Rightarrow> (int \<times> t_rec list) list \<Rightarrow> (int \<times> t_rec list) list" where
  "attribute c [] groups = groups"
| "attribute c (t # ts) groups =
     (case stage_job c (t_stageId t) of
        None \<Rightarrow> attribute c ts groups
      | Some jobId \<Rightarrow>
          (case job_exec c jobId of
             None \<Rightarrow> attribute c ts groups
           | Some exid \<Rightarrow> attribute c ts (append_task exid t groups)))"

text \<open>
  An output row (lines 314 to 333); the columns keep their names. \<open>executionId\<close> is
  optional because the sort of line 335 reads it with \<^verbatim>\<open>r.get\<close>; every row that
  \<open>mk_row\<close> builds carries one.
\<close>

record row =
  executionId :: "int option"
  description :: string
  num_jobs :: nat
  num_tasks :: nat
  makespan_ms :: "int option"
  task_slot_ms :: int
  executor_run_ms :: int
  executor_cpu_ms :: rat
  cpu_vs_wall_pct :: "rat option"
  deserialize_ms :: int
  result_serialize_ms :: int
  gc_ms :: int
  shuffle_fetch_wait_ms :: int
  shuffle_write_time_ms :: rat
  input_bytes :: int
  output_bytes :: int
  shuffle_read_bytes :: int
  shuffle_write_bytes :: int

text \<open>
  Lines 288 to 290: \<^verbatim>\<open>min(..., default=None)\<close> over the launch times that are present,
  \<^verbatim>\<open>max(..., default=None)\<close> over the finish times that are present.
\<close>

definition wall_start :: "t_rec list \<Rightarrow> int option" where
  "wall_start ts =
     (case List.map_filter t_launch ts of [] \<Rightarrow> None | x # xs \<Rightarrow> Some (fold min xs x))"

definition wall_end :: "t_rec list \<Rightarrow> int option" where
  "wall_end ts =
     (case List.map_filter t_finish ts of [] \<Rightarrow> None | x # xs \<Rightarrow> Some (fold max xs x))"

definition makespan :: "t_rec list \<Rightarrow> int option" where
  "makespan ts =
     (case (wall_start ts, wall_end ts) of
        (Some ws, Some we) \<Rightarrow> Some (we - ws)
      | _ \<Rightarrow> None)"

text \<open>Lines 307 to 310.\<close>

definition cpu_vs_wall :: "rat \<Rightarrow> int \<Rightarrow> rat option" where
  "cpu_vs_wall cpu_ms run_ms =
     (if run_ms \<noteq> 0 \<and> run_ms > 0 then Some ((cpu_ms / of_int run_ms) * 100) else None)"

text \<open>The body of the loop over \<^verbatim>\<open>tasks_by_exec.items()\<close> for a group that is not empty.\<close>

definition mk_row :: "ctx \<Rightarrow> int \<Rightarrow> t_rec list \<Rightarrow> row" where
  "mk_row c exid ts =
     (let run_ms = sum_list (map t_run_ms ts);
          cpu_ms = sum_list (map t_cpu_ms ts);
          info = (case exec_info c exid of None \<Rightarrow> empty_meta | Some i \<Rightarrow> i);
          desc = strip (case info_description info of
                          None \<Rightarrow> []
                        | Some d \<Rightarrow> if d = [] then [] else d)
      in \<lparr>executionId = Some exid,
          description = desc,
          num_jobs = card (exec_jobs c exid),
          num_tasks = length ts,
          makespan_ms = makespan ts,
          task_slot_ms = sum_list (map t_duration_ms ts),
          executor_run_ms = run_ms,
          executor_cpu_ms = cpu_ms,
          cpu_vs_wall_pct = cpu_vs_wall cpu_ms run_ms,
          deserialize_ms = sum_list (map t_deserialize_ms ts),
          result_serialize_ms = sum_list (map t_result_serialize_ms ts),
          gc_ms = sum_list (map t_gc_ms ts),
          shuffle_fetch_wait_ms = sum_list (map t_shuffle_fetch_wait_ms ts),
          shuffle_write_time_ms = sum_list (map t_shuffle_write_time_ms ts),
          input_bytes = sum_list (map t_input_bytes ts),
          output_bytes = sum_list (map t_output_bytes ts),
          shuffle_read_bytes = sum_list (map t_shuffle_read_bytes ts),
          shuffle_write_bytes = sum_list (map t_shuffle_write_bytes ts)\<rparr>)"

fun aggregate :: "ctx \<Rightarrow> (int \<times> t_rec list) list \<Rightarrow> row list" where
  "aggregate c [] = []"
| "aggregate c ((exid, ts) # groups) =
     (if ts = [] then aggregate c groups else mk_row c exid ts # aggregate c groups)"

text \<open>
  Line 335: \<^verbatim>\<open>results.sort(key=lambda r: r.get("executionId") or -1)\<close>. The sort of
  Python is stable, as \<open>sort_key\<close> is.
\<close>

definition row_sort_key :: "row \<Rightarrow> int" where
  "row_sort_key r =
     (case executionId r of None \<Rightarrow> - 1 | Some n \<Rightarrow> if n = 0 then - 1 else n)"

definition sort_rows :: "row list \<Rightarrow> row list" where
  "sort_rows rs = sort_key row_sort_key rs"

definition finish_analysis :: "ctx \<Rightarrow> row list" where
  "finish_analysis c = sort_rows (aggregate c (attribute c (map snd (tasks_by_key c)) []))"

definition analyze_sql_breakdown :: "pylib \<Rightarrow> line list list \<Rightarrow> error + row list" where
  "analyze_sql_breakdown py paths =
     bind_e (process_paths py ctx0 paths) (\<lambda>c. Inr (finish_analysis c))"

subsection \<open>The command\<close>

text \<open>
  \<^verbatim>\<open>main\<close> and \<^verbatim>\<open>sys.exit(main())\<close>. The arguments are taken as parsed: the event logs
  and the optional output file. What the process leaves behind is the text on the
  error stream, the rows handed to \<^verbatim>\<open>write_csv\<close> with their destination (\<open>None\<close> is
  the standard output), and the exit status. \<^verbatim>\<open>main\<close> returns 2 or \<^verbatim>\<open>None\<close>, and
  \<^verbatim>\<open>sys.exit(None)\<close> is status 0; an exception that nothing catches prints a traceback
  and gives status 1. The serialisation of the rows and failures of the file system are
  outside the model.
\<close>

datatype err_text = Diagnostic string | Traceback error

record outcome =
  stderr :: "err_text list"
  csv_written :: "(string option \<times> row list) option"
  exit_status :: int

definition no_rows_message :: string where
  "no_rows_message =
     ''No SQL executions found (or no mappable tasks). '' @
     ''Make sure the log contains SQL events and JobStart with spark.sql.execution.id.''"

definition sys_exit :: "int option \<Rightarrow> int" where
  "sys_exit code = (case code of None \<Rightarrow> 0 | Some n \<Rightarrow> n)"

definition main :: "pylib \<Rightarrow> line list list \<Rightarrow> string option \<Rightarrow> outcome" where
  "main py eventlogs output_file =
     (case analyze_sql_breakdown py eventlogs of
        Inl e \<Rightarrow> \<lparr>stderr = [Traceback e], csv_written = None, exit_status = 1\<rparr>
      | Inr rows \<Rightarrow>
          if rows = []
          then \<lparr>stderr = [Diagnostic no_rows_message], csv_written = None,
                exit_status = sys_exit (Some 2)\<rparr>
          else \<lparr>stderr = [], csv_written = Some (output_file, rows),
                exit_status = sys_exit None\<rparr>)"

subsection \<open>Reference formulations\<close>

text \<open>
  The makespan as the specification words it: the latest finish minus the earliest launch
  among the tasks of the group that carry both timestamps, and nothing when no task
  carries both. It is compared with \<open>makespan\<close>, the formulation of the source.
\<close>

definition both_present :: "t_rec \<Rightarrow> bool" where
  "both_present t = (t_launch t \<noteq> None \<and> t_finish t \<noteq> None)"

definition makespan_spec :: "t_rec list \<Rightarrow> int option" where
  "makespan_spec ts =
     (let both = filter both_present ts
      in if both = [] then None
         else Some (Max (set (List.map_filter t_finish both))
                    - Min (set (List.map_filter t_launch both))))"






section \<open>Properties\<close>

subsection \<open>Error propagation and the streaming pass\<close>

lemma bind_e_Inr [simp]: "bind_e (Inr x) f = f x"
  by (simp add: bind_e_def)

lemma bind_e_Inl [simp]: "bind_e (Inl e) f = Inl e"
  by (simp add: bind_e_def)

lemma bind_e_assoc: "bind_e (bind_e m f) h = bind_e m (\<lambda>x. bind_e (f x) h)"
  by (cases m) simp_all

lemma bind_e_eq_Inr: "bind_e m f = Inr y \<longleftrightarrow> (\<exists>x. m = Inr x \<and> f x = Inr y)"
  by (cases m) simp_all

lemma process_lines_append:
  "process_lines py c (xs @ ys) = bind_e (process_lines py c xs) (\<lambda>c1. process_lines py c1 ys)"
proof (induction xs arbitrary: c)
  case Nil
  show ?case by simp
next
  case (Cons l xs)
  show ?case
    by (cases "process_line py c l") (simp_all add: Cons.IH)
qed

lemma process_paths_append:
  "process_paths py c (ps @ qs) = bind_e (process_paths py c ps) (\<lambda>c1. process_paths py c1 qs)"
proof (induction ps arbitrary: c)
  case Nil
  show ?case by simp
next
  case (Cons f ps)
  show ?case
    by (cases "process_lines py c f") (simp_all add: Cons.IH)
qed

lemma process_paths_concat: "process_paths py c fs = process_lines py c (concat fs)"
proof (induction fs arbitrary: c)
  case Nil
  show ?case by simp
next
  case (Cons f fs)
  show ?case
    by (cases "process_lines py c f") (simp_all add: Cons.IH process_lines_append)
qed

text \<open>
  C6. Whatever the list of sources and wherever it is split in two, the analysis of the
  whole list is the second part streamed into the context the first part left (the
  context is created once, by \<open>ctx0\<close>, and handed on), and it returns what the analysis
  of one source holding all the lines in order returns: the same rows, or the same error.
\<close>

theorem sequential_sources_equal_concatenation:
  "analyze_sql_breakdown py (ps @ qs) =
     bind_e (process_paths py ctx0 ps)
       (\<lambda>c. bind_e (process_paths py c qs) (\<lambda>c'. Inr (finish_analysis c')))
   \<and> analyze_sql_breakdown py (ps @ qs) = analyze_sql_breakdown py [concat (ps @ qs)]"
proof
  show "analyze_sql_breakdown py (ps @ qs) =
     bind_e (process_paths py ctx0 ps)
       (\<lambda>c. bind_e (process_paths py c qs) (\<lambda>c'. Inr (finish_analysis c')))"
    by (simp add: analyze_sql_breakdown_def process_paths_append bind_e_assoc)
next
  have "process_paths py ctx0 [concat (ps @ qs)] = process_paths py ctx0 (ps @ qs)"
    by (simp only: process_paths_concat[of py ctx0 "ps @ qs"]
          process_paths_concat[of py ctx0 "[concat (ps @ qs)]"]) simp
  then show "analyze_sql_breakdown py (ps @ qs) = analyze_sql_breakdown py [concat (ps @ qs)]"
    by (simp only: analyze_sql_breakdown_def)
qed

subsection \<open>The end-to-end scenario\<close>

lemmas run_defs = analyze_sql_breakdown_def ctx0_def process_line_def process_event_def
  on_job_start_def on_execution_start_def on_execution_end_def on_task_end_def stage_ids_of_def
  norm_properties_def as_int_def as_int0_def int_of_str_def int_space_def strip_def
  is_space_def
  parse_number_def digit_of_def task_record_def store_task_def finish_analysis_def
  append_task_def mk_row_def makespan_def wall_start_def wall_end_def List.map_filter_def
  sort_rows_def cpu_vs_wall_def py_or_def success_from_task_end_def ms_from_ns_def
  empty_meta_def unwrap_value_def Let_def

text \<open>
  C4. One source holding a job start (jobId 5, stageIds [1], property
  spark.sql.execution.id = "7"), an execution start (executionId 7, description
  "benchmark q1-v2.4") and one task end (stageId 1, taskId 0, launch 1000, finish 1500,
  executorRunTime 400, executorCpuTime 300000000, no end reason, which counts as success)
  yields exactly one row: executionId 7, num_jobs 1, num_tasks 1, makespan_ms 500,
  task_slot_ms 500, executor_run_ms 400, executor_cpu_ms 300, cpu_vs_wall_pct 75, and 0 in
  every other sum.
\<close>

theorem end_to_end_scenario:
  "analyze_sql_breakdown py
     [[Some (JObj [(''Event'', JStr ''SparkListenerJobStart''), (''jobId'', JInt 5),
                   (''stageIds'', JArr [JInt 1]),
                   (''properties'', JObj [(''spark.sql.execution.id'', JStr ''7'')])]),
       Some (JObj [(''Event'', JStr ''SparkListenerSQLExecutionStart''),
                   (''executionId'', JInt 7),
                   (''description'', JStr ''benchmark q1-v2.4'')]),
       Some (JObj [(''Event'', JStr ''SparkListenerTaskEnd''), (''stageId'', JInt 1),
                   (''taskInfo'', JObj [(''taskId'', JInt 0), (''launchTime'', JInt 1000),
                                        (''finishTime'', JInt 1500)]),
                   (''taskMetrics'', JObj [(''executorRunTime'', JInt 400),
                                           (''executorCpuTime'', JInt 300000000)])])]]
   = Inr [\<lparr>executionId = Some 7, description = ''benchmark q1-v2.4'',
           num_jobs = 1, num_tasks = 1, makespan_ms = Some 500,
           task_slot_ms = 500, executor_run_ms = 400, executor_cpu_ms = 300,
           cpu_vs_wall_pct = Some 75, deserialize_ms = 0,
           result_serialize_ms = 0, gc_ms = 0, shuffle_fetch_wait_ms = 0,
           shuffle_write_time_ms = 0, input_bytes = 0, output_bytes = 0,
           shuffle_read_bytes = 0, shuffle_write_bytes = 0\<rparr>]"
  by (simp add: run_defs)

subsection \<open>Makespan\<close>

lemma fold_min_Min: "fold min xs (x::int) = Min (set (x # xs))"
  by (simp only: Min.set_eq_fold)

lemma fold_max_Max: "fold max xs (x::int) = Max (set (x # xs))"
  by (simp only: Max.set_eq_fold)

lemma wall_start_Min:
  "wall_start ts =
     (if List.map_filter t_launch ts = [] then None
      else Some (Min (set (List.map_filter t_launch ts))))"
proof (cases "List.map_filter t_launch ts")
  case Nil
  then show ?thesis by (simp add: wall_start_def)
next
  case (Cons x xs)
  then show ?thesis by (simp only: wall_start_def fold_min_Min list.case list.distinct if_False)
qed

lemma wall_end_Max:
  "wall_end ts =
     (if List.map_filter t_finish ts = [] then None
      else Some (Max (set (List.map_filter t_finish ts))))"
proof (cases "List.map_filter t_finish ts")
  case Nil
  then show ?thesis by (simp add: wall_end_def)
next
  case (Cons x xs)
  then show ?thesis by (simp only: wall_end_def fold_max_Max list.case list.distinct if_False)
qed

lemma makespan_ms_mk_row: "makespan_ms (mk_row c exid ts) = makespan ts"
  by (simp add: mk_row_def Let_def)

text \<open>
  C1, as the code has it. The makespan of a group is the latest finish among the tasks
  whose finish time is present minus the earliest launch among the tasks whose launch
  time is present, the two taken independently; it is absent exactly when no task has a
  launch time or no task has a finish time.
\<close>

theorem makespan_over_present_timestamps:
  "makespan_ms (mk_row c exid ts) =
     (if List.map_filter t_launch ts = [] \<or> List.map_filter t_finish ts = [] then None
      else Some (Max (set (List.map_filter t_finish ts))
                 - Min (set (List.map_filter t_launch ts))))"
  by (simp add: makespan_ms_mk_row makespan_def wall_start_Min wall_end_Max)

text \<open>
  C1 as stated fails. A group of a task launched at 100 with no finish time and a task
  launched at 200 and finished at 300 has makespan 200, where the tasks with both
  timestamps give 100; a group of a task with only a launch time (100) and a task with
  only a finish time (300) has makespan 200, where no task has both.
\<close>

theorem makespan_both_present_counterexample:
  "makespan_ms (mk_row ctx0 7
      [\<lparr>t_stageId = 1, t_taskId = Some 0, t_launch = Some 100, t_finish = None,
        t_duration_ms = 0, t_run_ms = 0, t_cpu_ms = 0, t_deserialize_ms = 0,
        t_result_serialize_ms = 0, t_gc_ms = 0, t_shuffle_fetch_wait_ms = 0,
        t_shuffle_write_time_ms = 0, t_shuffle_read_bytes = 0, t_shuffle_write_bytes = 0,
        t_input_bytes = 0, t_output_bytes = 0, t_success = True\<rparr>,
       \<lparr>t_stageId = 1, t_taskId = Some 1, t_launch = Some 200, t_finish = Some 300,
        t_duration_ms = 100, t_run_ms = 0, t_cpu_ms = 0, t_deserialize_ms = 0,
        t_result_serialize_ms = 0, t_gc_ms = 0, t_shuffle_fetch_wait_ms = 0,
        t_shuffle_write_time_ms = 0, t_shuffle_read_bytes = 0, t_shuffle_write_bytes = 0,
        t_input_bytes = 0, t_output_bytes = 0, t_success = True\<rparr>]) = Some 200
   \<and> makespan_spec
      [\<lparr>t_stageId = 1, t_taskId = Some 0, t_launch = Some 100, t_finish = None,
        t_duration_ms = 0, t_run_ms = 0, t_cpu_ms = 0, t_deserialize_ms = 0,
        t_result_serialize_ms = 0, t_gc_ms = 0, t_shuffle_fetch_wait_ms = 0,
        t_shuffle_write_time_ms = 0, t_shuffle_read_bytes = 0, t_shuffle_write_bytes = 0,
        t_input_bytes = 0, t_output_bytes = 0, t_success = True\<rparr>,
       \<lparr>t_stageId = 1, t_taskId = Some 1, t_launch = Some 200, t_finish = Some 300,
        t_duration_ms = 100, t_run_ms = 0, t_cpu_ms = 0, t_deserialize_ms = 0,
        t_result_serialize_ms = 0, t_gc_ms = 0, t_shuffle_fetch_wait_ms = 0,
        t_shuffle_write_time_ms = 0, t_shuffle_read_bytes = 0, t_shuffle_write_bytes = 0,
        t_input_bytes = 0, t_output_bytes = 0, t_success = True\<rparr>] = Some 100
   \<and> makespan_ms (mk_row ctx0 7
      [\<lparr>t_stageId = 1, t_taskId = Some 0, t_launch = Some 100, t_finish = None,
        t_duration_ms = 0, t_run_ms = 0, t_cpu_ms = 0, t_deserialize_ms = 0,
        t_result_serialize_ms = 0, t_gc_ms = 0, t_shuffle_fetch_wait_ms = 0,
        t_shuffle_write_time_ms = 0, t_shuffle_read_bytes = 0, t_shuffle_write_bytes = 0,
        t_input_bytes = 0, t_output_bytes = 0, t_success = True\<rparr>,
       \<lparr>t_stageId = 1, t_taskId = Some 1, t_launch = None, t_finish = Some 300,
        t_duration_ms = 0, t_run_ms = 0, t_cpu_ms = 0, t_deserialize_ms = 0,
        t_result_serialize_ms = 0, t_gc_ms = 0, t_shuffle_fetch_wait_ms = 0,
        t_shuffle_write_time_ms = 0, t_shuffle_read_bytes = 0, t_shuffle_write_bytes = 0,
        t_input_bytes = 0, t_output_bytes = 0, t_success = True\<rparr>]) = Some 200
   \<and> makespan_spec
      [\<lparr>t_stageId = 1, t_taskId = Some 0, t_launch = Some 100, t_finish = None,
        t_duration_ms = 0, t_run_ms = 0, t_cpu_ms = 0, t_deserialize_ms = 0,
        t_result_serialize_ms = 0, t_gc_ms = 0, t_shuffle_fetch_wait_ms = 0,
        t_shuffle_write_time_ms = 0, t_shuffle_read_bytes = 0, t_shuffle_write_bytes = 0,
        t_input_bytes = 0, t_output_bytes = 0, t_success = True\<rparr>,
       \<lparr>t_stageId = 1, t_taskId = Some 1, t_launch = None, t_finish = Some 300,
        t_duration_ms = 0, t_run_ms = 0, t_cpu_ms = 0, t_deserialize_ms = 0,
        t_result_serialize_ms = 0, t_gc_ms = 0, t_shuffle_fetch_wait_ms = 0,
        t_shuffle_write_time_ms = 0, t_shuffle_read_bytes = 0, t_shuffle_write_bytes = 0,
        t_input_bytes = 0, t_output_bytes = 0, t_success = True\<rparr>] = None"
  by (simp add: mk_row_def makespan_def wall_start_def wall_end_def List.map_filter_def
        makespan_spec_def both_present_def Let_def)

text \<open>
  The first group, from its events: a job start for execution 7 with stage 1, a task end
  that carries only a launch time (100), and a task end launched at 200 and finished at
  300. The one row has two tasks and makespan 200.
\<close>

lemma makespan_end_to_end_example:
  "map_sum id (map (\<lambda>r. (executionId r, num_tasks r, makespan_ms r)))
     (analyze_sql_breakdown py
        [[Some (JObj [(''Event'', JStr ''SparkListenerJobStart''), (''Job ID'', JInt 5),
                      (''Stage IDs'', JArr [JInt 1]),
                      (''Properties'', JObj [(''spark.sql.execution.id'', JStr ''7'')])]),
          Some (JObj [(''Event'', JStr ''SparkListenerTaskEnd''), (''Stage ID'', JInt 1),
                      (''Task Info'', JObj [(''Task ID'', JInt 0), (''Launch Time'', JInt 100)])]),
          Some (JObj [(''Event'', JStr ''SparkListenerTaskEnd''), (''Stage ID'', JInt 1),
                      (''Task Info'', JObj [(''Task ID'', JInt 1), (''Launch Time'', JInt 200),
                                            (''Finish Time'', JInt 300)])])]])
   = Inr [(Some 7, 2, Some 200)]"
  by (simp add: run_defs)

subsection \<open>CPU share of the run time\<close>



text \<open>The same from the events.\<close>

lemma negative_run_time_end_to_end_example:
  "map_sum id (map (\<lambda>r. (executionId r, executor_run_ms r, executor_cpu_ms r, cpu_vs_wall_pct r)))
     (analyze_sql_breakdown py
        [[Some (JObj [(''Event'', JStr ''SparkListenerJobStart''), (''Job ID'', JInt 5),
                      (''Stage IDs'', JArr [JInt 1]),
                      (''Properties'', JObj [(''spark.sql.execution.id'', JStr ''7'')])]),
          Some (JObj [(''Event'', JStr ''SparkListenerTaskEnd''), (''Stage ID'', JInt 1),
                      (''Task Info'', JObj [(''Task ID'', JInt 0)]),
                      (''Task Metrics'', JObj [(''Executor Run Time'', JInt (- 5)),
                                               (''Executor CPU Time'', JInt 1000000)])])]])
   = Inr [(Some 7, - 5, 1, None)]"
  by (simp add: run_defs)

subsection \<open>The task store\<close>

text \<open>Only a task-end event writes to the task store.\<close>

lemma on_execution_start_tasks:
  assumes "on_execution_start c ev = Inr c'"
  shows "tasks_by_key c' = tasks_by_key c"
proof (cases "as_int (g ev [''executionId'', ''Execution ID''] JNull) None")
  case None
  with assms show ?thesis by (simp add: on_execution_start_def)
next
  case (Some exid)
  show ?thesis
  proof (cases "py_or (g ev [''description'', ''Description''] (JStr [])) (JStr [])")
    case (JStr s)
    with assms Some show ?thesis by (auto simp: on_execution_start_def Let_def)
  qed (use assms Some in \<open>simp_all add: on_execution_start_def\<close>)
qed

lemma on_execution_end_tasks: "tasks_by_key (on_execution_end c ev) = tasks_by_key c"
  by (simp add: on_execution_end_def Let_def split: option.splits)

lemma on_job_start_tasks:
  "on_job_start c ev = Inr c' \<Longrightarrow> tasks_by_key c' = tasks_by_key c"
  by (auto simp: on_job_start_def Let_def bind_e_eq_Inr split: option.splits if_splits)

lemma map_of_store_task:
  "map_of (store_task key t tasks) k =
     (if k = key
      then (case map_of tasks key of
              None \<Rightarrow> Some t
            | Some prev \<Rightarrow> Some (if \<not> t_success prev \<and> t_success t then t else prev))
      else map_of tasks k)"
  by (simp add: store_task_def update_conv' split: option.splits)

lemma store_task_keeps_success:
  "map_of tasks k = Some r \<Longrightarrow> t_success r \<Longrightarrow> map_of (store_task key t tasks) k = Some r"
  by (auto simp: map_of_store_task)

text \<open>
  C2, as the code has it. Of two task-end records that arrive for a key not yet in the
  store, the earlier one is retained unless it is unsuccessful and the later one is
  successful, in which case the later one is retained. So whenever exactly one of the two
  is successful it is the one retained, in either arrival order; when both are
  unsuccessful (and when both are successful) the earlier-arriving record is retained.
\<close>

theorem dedup_first_kept_unless_success_follows_failure:
  "map_of tasks key = None \<Longrightarrow>
     map_of (store_task key b (store_task key a tasks)) key =
       Some (if \<not> t_success a \<and> t_success b then b else a)"
  by (simp add: map_of_store_task)

text \<open>A failure followed by a success for the key (1, 0): the success is retained.\<close>

theorem dedup_first_kept_unless_success_follows_failure_witness:
  "map_of ([] :: (task_key \<times> t_rec) list) (1, Some 0) = None
   \<and> map_of (store_task (1, Some 0)
        \<lparr>t_stageId = 1, t_taskId = Some 0, t_launch = Some 1100, t_finish = Some 1600,
          t_duration_ms = 500, t_run_ms = 0, t_cpu_ms = 0, t_deserialize_ms = 0,
          t_result_serialize_ms = 0, t_gc_ms = 0, t_shuffle_fetch_wait_ms = 0,
          t_shuffle_write_time_ms = 0, t_shuffle_read_bytes = 0, t_shuffle_write_bytes = 0,
          t_input_bytes = 0, t_output_bytes = 0, t_success = True\<rparr>
        (store_task (1, Some 0)
        \<lparr>t_stageId = 1, t_taskId = Some 0, t_launch = Some 1000, t_finish = Some 1500,
          t_duration_ms = 500, t_run_ms = 0, t_cpu_ms = 0, t_deserialize_ms = 0,
          t_result_serialize_ms = 0, t_gc_ms = 0, t_shuffle_fetch_wait_ms = 0,
          t_shuffle_write_time_ms = 0, t_shuffle_read_bytes = 0, t_shuffle_write_bytes = 0,
          t_input_bytes = 0, t_output_bytes = 0, t_success = False\<rparr> [])) (1, Some 0)
     = Some \<lparr>t_stageId = 1, t_taskId = Some 0, t_launch = Some 1100, t_finish = Some 1600,
          t_duration_ms = 500, t_run_ms = 0, t_cpu_ms = 0, t_deserialize_ms = 0,
          t_result_serialize_ms = 0, t_gc_ms = 0, t_shuffle_fetch_wait_ms = 0,
          t_shuffle_write_time_ms = 0, t_shuffle_read_bytes = 0, t_shuffle_write_bytes = 0,
          t_input_bytes = 0, t_output_bytes = 0, t_success = True\<rparr>"
  using dedup_first_kept_unless_success_follows_failure
    [of "[]" "(1, Some 0)"
        "\<lparr>t_stageId = 1, t_taskId = Some 0, t_launch = Some 1100, t_finish = Some 1600,
          t_duration_ms = 500, t_run_ms = 0, t_cpu_ms = 0, t_deserialize_ms = 0,
          t_result_serialize_ms = 0, t_gc_ms = 0, t_shuffle_fetch_wait_ms = 0,
          t_shuffle_write_time_ms = 0, t_shuffle_read_bytes = 0, t_shuffle_write_bytes = 0,
          t_input_bytes = 0, t_output_bytes = 0, t_success = True\<rparr>"
        "\<lparr>t_stageId = 1, t_taskId = Some 0, t_launch = Some 1000, t_finish = Some 1500,
          t_duration_ms = 500, t_run_ms = 0, t_cpu_ms = 0, t_deserialize_ms = 0,
          t_result_serialize_ms = 0, t_gc_ms = 0, t_shuffle_fetch_wait_ms = 0,
          t_shuffle_write_time_ms = 0, t_shuffle_read_bytes = 0, t_shuffle_write_bytes = 0,
          t_input_bytes = 0, t_output_bytes = 0, t_success = False\<rparr>"]
  by simp

text \<open>
  C2 as stated fails: of two unsuccessful records for the key (1, 0), the first finishing
  at 1500 and the second at 1600, the store retains the first, not the later-arriving one.
\<close>

theorem dedup_two_failures_counterexample:
  "map_of (store_task (1, Some 0)
        \<lparr>t_stageId = 1, t_taskId = Some 0, t_launch = Some 1100, t_finish = Some 1600,
          t_duration_ms = 500, t_run_ms = 0, t_cpu_ms = 0, t_deserialize_ms = 0,
          t_result_serialize_ms = 0, t_gc_ms = 0, t_shuffle_fetch_wait_ms = 0,
          t_shuffle_write_time_ms = 0, t_shuffle_read_bytes = 0, t_shuffle_write_bytes = 0,
          t_input_bytes = 0, t_output_bytes = 0, t_success = False\<rparr>
        (store_task (1, Some 0)
        \<lparr>t_stageId = 1, t_taskId = Some 0, t_launch = Some 1000, t_finish = Some 1500,
          t_duration_ms = 500, t_run_ms = 0, t_cpu_ms = 0, t_deserialize_ms = 0,
          t_result_serialize_ms = 0, t_gc_ms = 0, t_shuffle_fetch_wait_ms = 0,
          t_shuffle_write_time_ms = 0, t_shuffle_read_bytes = 0, t_shuffle_write_bytes = 0,
          t_input_bytes = 0, t_output_bytes = 0, t_success = False\<rparr> [])) (1, Some 0)
     = Some \<lparr>t_stageId = 1, t_taskId = Some 0, t_launch = Some 1000, t_finish = Some 1500,
          t_duration_ms = 500, t_run_ms = 0, t_cpu_ms = 0, t_deserialize_ms = 0,
          t_result_serialize_ms = 0, t_gc_ms = 0, t_shuffle_fetch_wait_ms = 0,
          t_shuffle_write_time_ms = 0, t_shuffle_read_bytes = 0, t_shuffle_write_bytes = 0,
          t_input_bytes = 0, t_output_bytes = 0, t_success = False\<rparr>
   \<and> map_of (store_task (1, Some 0)
        \<lparr>t_stageId = 1, t_taskId = Some 0, t_launch = Some 1100, t_finish = Some 1600,
          t_duration_ms = 500, t_run_ms = 0, t_cpu_ms = 0, t_deserialize_ms = 0,
          t_result_serialize_ms = 0, t_gc_ms = 0, t_shuffle_fetch_wait_ms = 0,
          t_shuffle_write_time_ms = 0, t_shuffle_read_bytes = 0, t_shuffle_write_bytes = 0,
          t_input_bytes = 0, t_output_bytes = 0, t_success = False\<rparr>
        (store_task (1, Some 0)
        \<lparr>t_stageId = 1, t_taskId = Some 0, t_launch = Some 1000, t_finish = Some 1500,
          t_duration_ms = 500, t_run_ms = 0, t_cpu_ms = 0, t_deserialize_ms = 0,
          t_result_serialize_ms = 0, t_gc_ms = 0, t_shuffle_fetch_wait_ms = 0,
          t_shuffle_write_time_ms = 0, t_shuffle_read_bytes = 0, t_shuffle_write_bytes = 0,
          t_input_bytes = 0, t_output_bytes = 0, t_success = False\<rparr> [])) (1, Some 0)
     \<noteq> Some \<lparr>t_stageId = 1, t_taskId = Some 0, t_launch = Some 1100, t_finish = Some 1600,
          t_duration_ms = 500, t_run_ms = 0, t_cpu_ms = 0, t_deserialize_ms = 0,
          t_result_serialize_ms = 0, t_gc_ms = 0, t_shuffle_fetch_wait_ms = 0,
          t_shuffle_write_time_ms = 0, t_shuffle_read_bytes = 0, t_shuffle_write_bytes = 0,
          t_input_bytes = 0, t_output_bytes = 0, t_success = False\<rparr>"
  by (simp add: store_task_def)

text \<open>
  The same from the events: two task ends of stage 1, task 0, both with the end reason
  ExceptionFailure; the store holds the one that finished at 1500.
\<close>

lemma two_failures_end_to_end_example:
  "map_sum id (\<lambda>c. map (\<lambda>kt. (fst kt, t_finish (snd kt), t_success (snd kt))) (tasks_by_key c))
     (process_lines py ctx0
        [Some (JObj [(''Event'', JStr ''SparkListenerTaskEnd''), (''Stage ID'', JInt 1),
                     (''Task End Reason'', JObj [(''Reason'', JStr ''ExceptionFailure'')]),
                     (''Task Info'', JObj [(''Task ID'', JInt 0), (''Launch Time'', JInt 1000),
                                           (''Finish Time'', JInt 1500)])]),
         Some (JObj [(''Event'', JStr ''SparkListenerTaskEnd''), (''Stage ID'', JInt 1),
                     (''Task End Reason'', JObj [(''Reason'', JStr ''ExceptionFailure'')]),
                     (''Task Info'', JObj [(''Task ID'', JInt 0), (''Launch Time'', JInt 1100),
                                           (''Finish Time'', JInt 1600)])])])
   = Inr [((1, Some 0), Some 1500, False)]"
  by (simp add: run_defs lower_def lower_char_def)

subsection \<open>Unit conversion of the CPU time\<close>



subsection \<open>Exit status\<close>

text \<open>
  C8. When the analysis returns no row, the command writes the diagnostic message to the
  error stream, writes no CSV and exits with status 2; when it returns at least one row,
  the rows go to \<^verbatim>\<open>write_csv\<close>, nothing goes to the error stream and the exit status
  is 0.
\<close>

theorem exit_status_by_rows:
  "(analyze_sql_breakdown py eventlogs = Inr [] \<longrightarrow>
      main py eventlogs output_file =
        \<lparr>stderr = [Diagnostic no_rows_message], csv_written = None, exit_status = 2\<rparr>)
   \<and> (analyze_sql_breakdown py eventlogs = Inr rows \<and> rows \<noteq> [] \<longrightarrow>
      main py eventlogs output_file =
        \<lparr>stderr = [], csv_written = Some (output_file, rows), exit_status = 0\<rparr>)"
  by (simp add: main_def sys_exit_def)


text \<open>
  One empty source gives status 2; a job start and a task end of its stage give one row
  and status 0.
\<close>

theorem exit_status_by_rows_witness:
  "main \<lparr>float_of_str = (\<lambda>s. None), str_of = (\<lambda>v. [])\<rparr> [[]] None =
     \<lparr>stderr = [Diagnostic no_rows_message], csv_written = None, exit_status = 2\<rparr>
   \<and> main \<lparr>float_of_str = (\<lambda>s. None), str_of = (\<lambda>v. [])\<rparr>
       [[Some (JObj [(''Event'', JStr ''SparkListenerJobStart''), (''Job ID'', JInt 5),
                 (''Stage IDs'', JArr [JInt 1]),
                 (''Properties'', JObj [(''spark.sql.execution.id'', JStr ''7'')])]),
         Some (JObj [(''Event'', JStr ''SparkListenerTaskEnd''), (''Stage ID'', JInt 1),
                 (''Task Info'', JObj [(''Task ID'', JInt 0), (''Launch Time'', JInt 1100),
                                       (''Finish Time'', JInt 1600)])])]] (Some ''run-1.csv'') =
     \<lparr>stderr = [],
      csv_written = Some (Some ''run-1.csv'',
        [\<lparr>executionId = Some 7, description = [], num_jobs = 1, num_tasks = 1,
          makespan_ms = Some 500, task_slot_ms = 500, executor_run_ms = 0,
          executor_cpu_ms = 0, cpu_vs_wall_pct = None, deserialize_ms = 0,
          result_serialize_ms = 0, gc_ms = 0, shuffle_fetch_wait_ms = 0,
          shuffle_write_time_ms = 0, input_bytes = 0, output_bytes = 0,
          shuffle_read_bytes = 0, shuffle_write_bytes = 0\<rparr>]),
      exit_status = 0\<rparr>"
proof -
  have none: "analyze_sql_breakdown \<lparr>float_of_str = (\<lambda>s. None), str_of = (\<lambda>v. [])\<rparr> [[]] = Inr []"
    by (simp add: run_defs)
  have one: "analyze_sql_breakdown \<lparr>float_of_str = (\<lambda>s. None), str_of = (\<lambda>v. [])\<rparr>
       [[Some (JObj [(''Event'', JStr ''SparkListenerJobStart''), (''Job ID'', JInt 5),
                 (''Stage IDs'', JArr [JInt 1]),
                 (''Properties'', JObj [(''spark.sql.execution.id'', JStr ''7'')])]),
         Some (JObj [(''Event'', JStr ''SparkListenerTaskEnd''), (''Stage ID'', JInt 1),
                 (''Task Info'', JObj [(''Task ID'', JInt 0), (''Launch Time'', JInt 1100),
                                       (''Finish Time'', JInt 1600)])])]] =
     Inr [\<lparr>executionId = Some 7, description = [], num_jobs = 1, num_tasks = 1,
          makespan_ms = Some 500, task_slot_ms = 500, executor_run_ms = 0,
          executor_cpu_ms = 0, cpu_vs_wall_pct = None, deserialize_ms = 0,
          result_serialize_ms = 0, gc_ms = 0, shuffle_fetch_wait_ms = 0,
          shuffle_write_time_ms = 0, input_bytes = 0, output_bytes = 0,
          shuffle_read_bytes = 0, shuffle_write_bytes = 0\<rparr>]"
    by (simp add: run_defs)
  show ?thesis
    using exit_status_by_rows [of "\<lparr>float_of_str = (\<lambda>s. None), str_of = (\<lambda>v. [])\<rparr>" "[[]]" None]
      exit_status_by_rows [of "\<lparr>float_of_str = (\<lambda>s. None), str_of = (\<lambda>v. [])\<rparr>"
       "[[Some (JObj [(''Event'', JStr ''SparkListenerJobStart''), (''Job ID'', JInt 5),
                 (''Stage IDs'', JArr [JInt 1]),
                 (''Properties'', JObj [(''spark.sql.execution.id'', JStr ''7'')])]),
         Some (JObj [(''Event'', JStr ''SparkListenerTaskEnd''), (''Stage ID'', JInt 1),
                 (''Task Info'', JObj [(''Task ID'', JInt 0), (''Launch Time'', JInt 1100),
                                       (''Finish Time'', JInt 1600)])])]]"
       "Some ''run-1.csv''" "[\<lparr>executionId = Some 7, description = [], num_jobs = 1, num_tasks = 1,
          makespan_ms = Some 500, task_slot_ms = 500, executor_run_ms = 0,
          executor_cpu_ms = 0, cpu_vs_wall_pct = None, deserialize_ms = 0,
          result_serialize_ms = 0, gc_ms = 0, shuffle_fetch_wait_ms = 0,
          shuffle_write_time_ms = 0, input_bytes = 0, output_bytes = 0,
          shuffle_read_bytes = 0, shuffle_write_bytes = 0\<rparr>]"]
      none one
    by simp
qed

subsection \<open>A stored success stays\<close>

lemma process_event_cases:
  assumes "process_event py c ev = Inr c'"
  shows "((g ev [''Event'', ''event''] JNull =
              JStr ''org.apache.spark.sql.execution.ui.SparkListenerSQLExecutionStart''
            \<or> g ev [''Event'', ''event''] JNull = JStr ''SparkListenerSQLExecutionStart'')
           \<and> on_execution_start c ev = Inr c')
         \<or> c' = on_execution_end c ev
         \<or> on_job_start c ev = Inr c' \<or> c' = on_task_end py c ev \<or> c' = c"
proof -
  define et where "et = g ev [''Event'', ''event''] JNull"
  have unfold: "process_event py c ev =
     (if \<not> truthy et then Inr c
      else if et = JStr ''org.apache.spark.sql.execution.ui.SparkListenerSQLExecutionStart''
                 \<or> et = JStr ''SparkListenerSQLExecutionStart''
        then on_execution_start c ev
      else if et = JStr ''org.apache.spark.sql.execution.ui.SparkListenerSQLExecutionEnd''
                 \<or> et = JStr ''SparkListenerSQLExecutionEnd''
        then Inr (on_execution_end c ev)
      else if et = JStr ''SparkListenerJobStart'' then on_job_start c ev
      else if et = JStr ''SparkListenerTaskEnd'' then Inr (on_task_end py c ev)
      else Inr c)"
    unfolding process_event_def et_def Let_def by (rule refl)
  show ?thesis
  proof (cases "\<not> truthy et")
    case True
    with assms unfold show ?thesis by simp
  next
    case t: False
    show ?thesis
    proof (cases "et = JStr ''org.apache.spark.sql.execution.ui.SparkListenerSQLExecutionStart''
                 \<or> et = JStr ''SparkListenerSQLExecutionStart''")
      case True
      with assms unfold t show ?thesis unfolding et_def by (simp only: if_True if_False) simp
    next
      case s: False
      show ?thesis
      proof (cases "et = JStr ''org.apache.spark.sql.execution.ui.SparkListenerSQLExecutionEnd''
                 \<or> et = JStr ''SparkListenerSQLExecutionEnd''")
        case True
        with assms unfold t s show ?thesis by (simp only: if_True if_False) simp
      next
        case e: False
        show ?thesis
        proof (cases "et = JStr ''SparkListenerJobStart''")
          case True
          with assms unfold t s e show ?thesis by (simp only: if_True if_False) simp
        next
          case j: False
          show ?thesis
          proof (cases "et = JStr ''SparkListenerTaskEnd''")
            case True
            with assms unfold t s e j show ?thesis by (simp only: if_True if_False) simp
          next
            case False
            with assms unfold t s e j show ?thesis by (simp only: if_True if_False) simp
          qed
        qed
      qed
    qed
  qed
qed

lemma process_event_keeps_success:
  assumes "process_event py c ev = Inr c'"
    and "map_of (tasks_by_key c) k = Some r" and "t_success r"
  shows "map_of (tasks_by_key c') k = Some r"
proof -
  consider (start) "on_execution_start c ev = Inr c'"
    | (fin) "c' = on_execution_end c ev"
    | (job) "on_job_start c ev = Inr c'"
    | (task) "c' = on_task_end py c ev"
    | (skip) "c' = c"
    using process_event_cases[OF assms(1)] by blast
  then show ?thesis
  proof cases
    case start
    then show ?thesis using assms(2) by (simp add: on_execution_start_tasks)
  next
    case fin
    then show ?thesis using assms(2) by (simp add: on_execution_end_tasks)
  next
    case job
    then show ?thesis using assms(2) by (simp add: on_job_start_tasks)
  next
    case task
    then show ?thesis using assms(2,3)
      by (simp add: on_task_end_def Let_def store_task_keeps_success split: option.splits)
  next
    case skip
    then show ?thesis using assms(2) by simp
  qed
qed

lemma process_lines_keeps_success:
  "process_lines py c ls = Inr c' \<Longrightarrow> map_of (tasks_by_key c) k = Some r \<Longrightarrow> t_success r
   \<Longrightarrow> map_of (tasks_by_key c') k = Some r"
proof (induction ls arbitrary: c)
  case Nil
  then show ?case by simp
next
  case (Cons l ls)
  from Cons.prems(1) obtain c1 where
    step: "process_line py c l = Inr c1" and rest: "process_lines py c1 ls = Inr c'"
    by (auto simp: bind_e_eq_Inr)
  have "map_of (tasks_by_key c1) k = Some r"
  proof (cases l)
    case None
    with step Cons.prems(2) show ?thesis by (simp add: process_line_def)
  next
    case (Some ev)
    with step have "process_event py c ev = Inr c1" by (simp add: process_line_def)
    then show ?thesis using Cons.prems(2,3) by (rule process_event_keeps_success)
  qed
  then show ?case using Cons.IH rest Cons.prems(3) by blast
qed

text \<open>
  C9. Let a record \<open>prev\<close> be stored under a key. If it is flagged successful, it is
  still the record stored under that key after any further sources have been streamed,
  whatever task-end events for the key they hold (a second success included). And one
  more record \<open>t\<close> for the key replaces \<open>prev\<close> only when \<open>prev\<close> is unsuccessful and
  \<open>t\<close> is successful; otherwise \<open>prev\<close> stays.
\<close>

theorem stored_success_never_replaced:
  "map_of (tasks_by_key c) key = Some prev \<Longrightarrow>
     (t_success prev \<and> process_paths py c paths = Inr c' \<longrightarrow>
        map_of (tasks_by_key c') key = Some prev)
     \<and> map_of (store_task key t (tasks_by_key c)) key =
         Some (if \<not> t_success prev \<and> t_success t then t else prev)"
  by (auto simp: map_of_store_task process_paths_concat dest: process_lines_keeps_success)

text \<open>
  A success stored under (1, 0); a second success for the same key, launched and finished
  later, leaves the context as it was.
\<close>

theorem stored_success_never_replaced_witness:
  "map_of (tasks_by_key (ctx0\<lparr>tasks_by_key := [((1, Some 0),
         \<lparr>t_stageId = 1, t_taskId = Some 0, t_launch = Some 1000, t_finish = Some 1500,
          t_duration_ms = 500, t_run_ms = 0, t_cpu_ms = 0, t_deserialize_ms = 0,
          t_result_serialize_ms = 0, t_gc_ms = 0, t_shuffle_fetch_wait_ms = 0,
          t_shuffle_write_time_ms = 0, t_shuffle_read_bytes = 0, t_shuffle_write_bytes = 0,
          t_input_bytes = 0, t_output_bytes = 0, t_success = True\<rparr>)]\<rparr>)) (1, Some 0) =
     Some \<lparr>t_stageId = 1, t_taskId = Some 0, t_launch = Some 1000, t_finish = Some 1500,
          t_duration_ms = 500, t_run_ms = 0, t_cpu_ms = 0, t_deserialize_ms = 0,
          t_result_serialize_ms = 0, t_gc_ms = 0, t_shuffle_fetch_wait_ms = 0,
          t_shuffle_write_time_ms = 0, t_shuffle_read_bytes = 0, t_shuffle_write_bytes = 0,
          t_input_bytes = 0, t_output_bytes = 0, t_success = True\<rparr>
   \<and> process_paths \<lparr>float_of_str = (\<lambda>s. None), str_of = (\<lambda>v. [])\<rparr> (ctx0\<lparr>tasks_by_key := [((1, Some 0),
         \<lparr>t_stageId = 1, t_taskId = Some 0, t_launch = Some 1000, t_finish = Some 1500,
          t_duration_ms = 500, t_run_ms = 0, t_cpu_ms = 0, t_deserialize_ms = 0,
          t_result_serialize_ms = 0, t_gc_ms = 0, t_shuffle_fetch_wait_ms = 0,
          t_shuffle_write_time_ms = 0, t_shuffle_read_bytes = 0, t_shuffle_write_bytes = 0,
          t_input_bytes = 0, t_output_bytes = 0, t_success = True\<rparr>)]\<rparr>)
       [[Some (JObj [(''Event'', JStr ''SparkListenerTaskEnd''), (''Stage ID'', JInt 1),
                 (''Task Info'', JObj [(''Task ID'', JInt 0), (''Launch Time'', JInt 1100),
                                       (''Finish Time'', JInt 1600)])])]] =
     Inr (ctx0\<lparr>tasks_by_key := [((1, Some 0),
         \<lparr>t_stageId = 1, t_taskId = Some 0, t_launch = Some 1000, t_finish = Some 1500,
          t_duration_ms = 500, t_run_ms = 0, t_cpu_ms = 0, t_deserialize_ms = 0,
          t_result_serialize_ms = 0, t_gc_ms = 0, t_shuffle_fetch_wait_ms = 0,
          t_shuffle_write_time_ms = 0, t_shuffle_read_bytes = 0, t_shuffle_write_bytes = 0,
          t_input_bytes = 0, t_output_bytes = 0, t_success = True\<rparr>)]\<rparr>)
   \<and> map_of (store_task (1, Some 0)
        \<lparr>t_stageId = 1, t_taskId = Some 0, t_launch = Some 1100, t_finish = Some 1600,
          t_duration_ms = 500, t_run_ms = 0, t_cpu_ms = 0, t_deserialize_ms = 0,
          t_result_serialize_ms = 0, t_gc_ms = 0, t_shuffle_fetch_wait_ms = 0,
          t_shuffle_write_time_ms = 0, t_shuffle_read_bytes = 0, t_shuffle_write_bytes = 0,
          t_input_bytes = 0, t_output_bytes = 0, t_success = True\<rparr>
        (tasks_by_key (ctx0\<lparr>tasks_by_key := [((1, Some 0),
         \<lparr>t_stageId = 1, t_taskId = Some 0, t_launch = Some 1000, t_finish = Some 1500,
          t_duration_ms = 500, t_run_ms = 0, t_cpu_ms = 0, t_deserialize_ms = 0,
          t_result_serialize_ms = 0, t_gc_ms = 0, t_shuffle_fetch_wait_ms = 0,
          t_shuffle_write_time_ms = 0, t_shuffle_read_bytes = 0, t_shuffle_write_bytes = 0,
          t_input_bytes = 0, t_output_bytes = 0, t_success = True\<rparr>)]\<rparr>))) (1, Some 0) =
     Some \<lparr>t_stageId = 1, t_taskId = Some 0, t_launch = Some 1000, t_finish = Some 1500,
          t_duration_ms = 500, t_run_ms = 0, t_cpu_ms = 0, t_deserialize_ms = 0,
          t_result_serialize_ms = 0, t_gc_ms = 0, t_shuffle_fetch_wait_ms = 0,
          t_shuffle_write_time_ms = 0, t_shuffle_read_bytes = 0, t_shuffle_write_bytes = 0,
          t_input_bytes = 0, t_output_bytes = 0, t_success = True\<rparr>"
proof -
  have stored: "map_of (tasks_by_key (ctx0\<lparr>tasks_by_key := [((1, Some 0),
         \<lparr>t_stageId = 1, t_taskId = Some 0, t_launch = Some 1000, t_finish = Some 1500,
          t_duration_ms = 500, t_run_ms = 0, t_cpu_ms = 0, t_deserialize_ms = 0,
          t_result_serialize_ms = 0, t_gc_ms = 0, t_shuffle_fetch_wait_ms = 0,
          t_shuffle_write_time_ms = 0, t_shuffle_read_bytes = 0, t_shuffle_write_bytes = 0,
          t_input_bytes = 0, t_output_bytes = 0, t_success = True\<rparr>)]\<rparr>)) (1, Some 0) =
     Some \<lparr>t_stageId = 1, t_taskId = Some 0, t_launch = Some 1000, t_finish = Some 1500,
          t_duration_ms = 500, t_run_ms = 0, t_cpu_ms = 0, t_deserialize_ms = 0,
          t_result_serialize_ms = 0, t_gc_ms = 0, t_shuffle_fetch_wait_ms = 0,
          t_shuffle_write_time_ms = 0, t_shuffle_read_bytes = 0, t_shuffle_write_bytes = 0,
          t_input_bytes = 0, t_output_bytes = 0, t_success = True\<rparr>"
    by simp
  have run: "process_paths \<lparr>float_of_str = (\<lambda>s. None), str_of = (\<lambda>v. [])\<rparr> (ctx0\<lparr>tasks_by_key := [((1, Some 0),
         \<lparr>t_stageId = 1, t_taskId = Some 0, t_launch = Some 1000, t_finish = Some 1500,
          t_duration_ms = 500, t_run_ms = 0, t_cpu_ms = 0, t_deserialize_ms = 0,
          t_result_serialize_ms = 0, t_gc_ms = 0, t_shuffle_fetch_wait_ms = 0,
          t_shuffle_write_time_ms = 0, t_shuffle_read_bytes = 0, t_shuffle_write_bytes = 0,
          t_input_bytes = 0, t_output_bytes = 0, t_success = True\<rparr>)]\<rparr>)
       [[Some (JObj [(''Event'', JStr ''SparkListenerTaskEnd''), (''Stage ID'', JInt 1),
                 (''Task Info'', JObj [(''Task ID'', JInt 0), (''Launch Time'', JInt 1100),
                                       (''Finish Time'', JInt 1600)])])]] =
     Inr (ctx0\<lparr>tasks_by_key := [((1, Some 0),
         \<lparr>t_stageId = 1, t_taskId = Some 0, t_launch = Some 1000, t_finish = Some 1500,
          t_duration_ms = 500, t_run_ms = 0, t_cpu_ms = 0, t_deserialize_ms = 0,
          t_result_serialize_ms = 0, t_gc_ms = 0, t_shuffle_fetch_wait_ms = 0,
          t_shuffle_write_time_ms = 0, t_shuffle_read_bytes = 0, t_shuffle_write_bytes = 0,
          t_input_bytes = 0, t_output_bytes = 0, t_success = True\<rparr>)]\<rparr>)"
    by (simp add: run_defs)
  show ?thesis
    using stored run
      stored_success_never_replaced [OF stored,
        of "\<lparr>float_of_str = (\<lambda>s. None), str_of = (\<lambda>v. [])\<rparr>"
        "[[Some (JObj [(''Event'', JStr ''SparkListenerTaskEnd''), (''Stage ID'', JInt 1),
                 (''Task Info'', JObj [(''Task ID'', JInt 0), (''Launch Time'', JInt 1100),
                                       (''Finish Time'', JInt 1600)])])]]"
        "(ctx0\<lparr>tasks_by_key := [((1, Some 0),
         \<lparr>t_stageId = 1, t_taskId = Some 0, t_launch = Some 1000, t_finish = Some 1500,
          t_duration_ms = 500, t_run_ms = 0, t_cpu_ms = 0, t_deserialize_ms = 0,
          t_result_serialize_ms = 0, t_gc_ms = 0, t_shuffle_fetch_wait_ms = 0,
          t_shuffle_write_time_ms = 0, t_shuffle_read_bytes = 0, t_shuffle_write_bytes = 0,
          t_input_bytes = 0, t_output_bytes = 0, t_success = True\<rparr>)]\<rparr>)"
        "\<lparr>t_stageId = 1, t_taskId = Some 0, t_launch = Some 1100, t_finish = Some 1600,
          t_duration_ms = 500, t_run_ms = 0, t_cpu_ms = 0, t_deserialize_ms = 0,
          t_result_serialize_ms = 0, t_gc_ms = 0, t_shuffle_fetch_wait_ms = 0,
          t_shuffle_write_time_ms = 0, t_shuffle_read_bytes = 0, t_shuffle_write_bytes = 0,
          t_input_bytes = 0, t_output_bytes = 0, t_success = True\<rparr>"]
    by simp
qed

subsection \<open>Order of the output rows\<close>









text \<open>
  The second context, from its events: job starts with spark.sql.execution.id "0" and
  "-1", and one task end in the stage of each.
\<close>

lemma negative_ids_end_to_end_example:
  "map_sum id (map executionId)
     (analyze_sql_breakdown py
        [[Some (JObj [(''Event'', JStr ''SparkListenerJobStart''), (''Job ID'', JInt 5),
                      (''Stage IDs'', JArr [JInt 1]),
                      (''Properties'', JObj [(''spark.sql.execution.id'', JStr ''0'')])]),
          Some (JObj [(''Event'', JStr ''SparkListenerJobStart''), (''Job ID'', JInt 6),
                      (''Stage IDs'', JArr [JInt 2]),
                      (''Properties'', JObj [(''spark.sql.execution.id'', JStr ''-1'')])]),
          Some (JObj [(''Event'', JStr ''SparkListenerTaskEnd''), (''Stage ID'', JInt 1),
                      (''Task Info'', JObj [(''Task ID'', JInt 0)])]),
          Some (JObj [(''Event'', JStr ''SparkListenerTaskEnd''), (''Stage ID'', JInt 2),
                      (''Task Info'', JObj [(''Task ID'', JInt 0)])])]])
   = Inr [Some 0, Some (- 1)]"
  by (simp add: run_defs row_sort_key_def)

subsection \<open>Executions with no execution-start event\<close>
















end
